theory Spec2Isabelle
  imports Main "HOL-Library.Char_ord" "HOL-Library.List_Lexorder" "HOL-Library.Multiset"
begin

section \<open>Data model\<close>

text \<open>
  The store is the Postgres schema of the migration: the tables \<open>seats\<close> and \<open>bookings\<close>.
  A row is a record, a table the list of its rows. UUIDs and texts are strings, a
  \<open>TIMESTAMP WITH TIME ZONE\<close> is an integer number of milliseconds (the client writes
  \<open>Date\<close> values, which have that resolution), a nullable column is an option.
  The columns \<open>created_at\<close> are written by no operation and read by none; they are left out.
  Field names are the column names; where two tables share a column name the one of
  \<open>bookings\<close> carries the suffix \<open>_booking\<close>, and \<open>id\<close> carries the table's name.
\<close>

datatype seat_status = AVAILABLE | HELD | BOOKED

datatype booking_status = HELD_b | CONFIRMED_b | CANCELLED_b

record seat =
  id_seat :: string
  seat_id :: string
  status :: seat_status
  hold_expires_at :: "int option"
  booked_by :: "string option"
  booked_at :: "int option"
  hold_id :: "string option"
  held_by :: "string option"
  show_id :: string

record booking =
  id_booking :: string
  seat_id_booking :: string
  user_id :: "string option"
  customer_name :: string
  status_booking :: booking_status
  hold_expires_at_booking :: "int option"
  confirmed_at :: "int option"

record db =
  seats_table :: "seat list"
  bookings_table :: "booking list"

text \<open>
  The client is the state of the hook \<open>useBooking\<close>: the \<open>useState\<close> cells that its
  operations read or write (\<open>shows\<close>, \<open>loading\<close> and \<open>timeRemaining\<close> only feed the
  page), and the signed-in user of \<open>useAuth\<close> (the user id, \<open>None\<close> when signed out).
\<close>

datatype local_status = IDLE | HELD_l | CONFIRMED_l | CANCELLED_l

record BookingState =
  bookingId :: "string option"
  seatId :: "string option"
  customerName :: string
  status_local :: local_status
  holdExpiresAt :: "int option"

record client =
  user :: "string option"
  currentShow :: "string option"
  seats :: "seat list"
  selectedSeat :: "seat option"
  bookingState :: BookingState

text \<open>The toasts an operation can show; an operation returns no other value.\<close>

datatype toast =
    Error_select_seat
  | Error_enter_name
  | Seat_Unavailable
  | Seat_Held
  | Error_hold_failed
  | Error_no_active_booking
  | Booking_Confirmed
  | Error_confirm_failed
  | Hold_Released
  | Error_release_failed

text \<open>
  The requests one operation sends, in the order it sends them. A request can fail
  (transport or storage); \<open>F r\<close> says that request \<open>r\<close> of this call comes back with
  an error, and then it has changed nothing.
\<close>

datatype request = Rpc_first | Select_first | Seat_write | Booking_write | Rpc_last | Select_last

definition no_faults :: "request \<Rightarrow> bool" where
  "no_faults r = False"

definition HOLD_DURATION_SECONDS :: int where
  "HOLD_DURATION_SECONDS = 20"

definition idle :: BookingState where
  "idle = \<lparr>bookingId = None, seatId = None, customerName = [], status_local = IDLE,
     holdExpiresAt = None\<rparr>"

section \<open>JavaScript helpers\<close>

text \<open>
  \<open>falsy\<close> is the test \<open>!x\<close> on a \<open>string | null\<close>, \<open>truthy\<close> the test \<open>x &&\<close>: null
  and the empty string are falsy.
\<close>

definition falsy :: "string option \<Rightarrow> bool" where
  "falsy x = (case x of None \<Rightarrow> True | Some s \<Rightarrow> s = [])"

definition truthy :: "string option \<Rightarrow> bool" where
  "truthy x = (\<not> falsy x)"

text \<open>
  A text is the list of the bytes of its UTF-8 encoding. \<open>white_space\<close> lists the white
  space and line terminators of ECMAScript, each as its encoding: U+0009 to U+000D,
  U+0020, U+00A0, U+1680, U+2000 to U+200A, U+2028, U+2029, U+202F, U+205F, U+3000 and
  U+FEFF. \<open>strip_start\<close> takes such characters off the front of a text, and \<open>trim\<close>, which
  is \<open>String.prototype.trim\<close>, off both ends.
\<close>

definition white_space :: "string list" where
  "white_space =
     [[CHR 0x09], [CHR 0x0A], [CHR 0x0B], [CHR 0x0C], [CHR 0x0D], [CHR 0x20],
      [CHR 0xC2, CHR 0xA0],
      [CHR 0xE1, CHR 0x9A, CHR 0x80],
      [CHR 0xE2, CHR 0x80, CHR 0x80], [CHR 0xE2, CHR 0x80, CHR 0x81],
      [CHR 0xE2, CHR 0x80, CHR 0x82], [CHR 0xE2, CHR 0x80, CHR 0x83],
      [CHR 0xE2, CHR 0x80, CHR 0x84], [CHR 0xE2, CHR 0x80, CHR 0x85],
      [CHR 0xE2, CHR 0x80, CHR 0x86], [CHR 0xE2, CHR 0x80, CHR 0x87],
      [CHR 0xE2, CHR 0x80, CHR 0x88], [CHR 0xE2, CHR 0x80, CHR 0x89],
      [CHR 0xE2, CHR 0x80, CHR 0x8A],
      [CHR 0xE2, CHR 0x80, CHR 0xA8], [CHR 0xE2, CHR 0x80, CHR 0xA9],
      [CHR 0xE2, CHR 0x80, CHR 0xAF],
      [CHR 0xE2, CHR 0x81, CHR 0x9F],
      [CHR 0xE3, CHR 0x80, CHR 0x80],
      [CHR 0xEF, CHR 0xBB, CHR 0xBF]]"

function strip_start :: "string list \<Rightarrow> string \<Rightarrow> string" where
  "strip_start ws s =
     (case find (\<lambda>w. w \<noteq> [] \<and> take (length w) s = w) ws of
        None \<Rightarrow> s
      | Some w \<Rightarrow> strip_start ws (drop (length w) s))"
  by pat_completeness auto
termination
proof (relation "measure (\<lambda>(ws, s). length s)")
  show "wf (measure (\<lambda>(ws, s). length s))" by simp
next
  fix ws :: "string list" and s w :: string
  assume "find (\<lambda>w. w \<noteq> [] \<and> take (length w) s = w) ws = Some w"
  then have w: "w \<noteq> []" "take (length w) s = w"
    by (auto simp: find_Some_iff)
  then have "s \<noteq> []" by auto
  with w show "((ws, drop (length w) s), (ws, s)) \<in> measure (\<lambda>(ws, s). length s)"
    by (cases w) auto
qed

declare strip_start.simps [simp del]

definition trim :: "string \<Rightarrow> string" where
  "trim s = rev (strip_start (map rev white_space) (rev (strip_start white_space s)))"

section \<open>The store\<close>

text \<open>
  \<open>UPDATE t SET ... WHERE P\<close> rewrites every row that satisfies \<open>P\<close> and leaves the others;
  it is no error when no row matches. The row-level-security policies of the migration:
  seats may be updated by any authenticated caller, a booking only by the user whose
  \<open>user_id\<close> it carries; rows a policy hides are silently not updated.
\<close>

definition update_seats ::
  "string option \<Rightarrow> (seat \<Rightarrow> bool) \<Rightarrow> (seat \<Rightarrow> seat) \<Rightarrow> db \<Rightarrow> db" where
  "update_seats uid P f d =
     d\<lparr>seats_table := map (\<lambda>s. if uid \<noteq> None \<and> P s then f s else s) (seats_table d)\<rparr>"

definition update_bookings ::
  "string option \<Rightarrow> (booking \<Rightarrow> bool) \<Rightarrow> (booking \<Rightarrow> booking) \<Rightarrow> db \<Rightarrow> db" where
  "update_bookings uid P f d =
     d\<lparr>bookings_table :=
         map (\<lambda>b. if uid \<noteq> None \<and> user_id b = uid \<and> P b then f b else b) (bookings_table d)\<rparr>"

text \<open>
  \<open>INSERT INTO bookings\<close>: refused (\<open>None\<close>) when the primary key is taken or the
  referenced seat does not exist; the policy \<open>WITH CHECK (user_id = auth.uid())\<close> refuses
  a row for another user.
\<close>

definition insert_booking :: "string option \<Rightarrow> booking \<Rightarrow> db \<Rightarrow> db option" where
  "insert_booking uid b d =
     (if uid = None \<or> user_id b \<noteq> uid then None
      else if find (\<lambda>r. id_booking r = id_booking b) (bookings_table d) \<noteq> None then None
      else if find (\<lambda>s. id_seat s = seat_id_booking b) (seats_table d) = None then None
      else Some (d\<lparr>bookings_table := bookings_table d @ [b]\<rparr>))"

text \<open>
  The function \<open>release_expired_holds()\<close> of the migration: two updates in one
  transaction, both against \<open>now()\<close>. A comparison with NULL is not true.
\<close>

definition before :: "int option \<Rightarrow> int \<Rightarrow> bool" where
  "before t now = (case t of None \<Rightarrow> False | Some e \<Rightarrow> e < now)"

definition release_seat :: "seat \<Rightarrow> seat" where
  "release_seat s = s\<lparr>status := AVAILABLE, hold_expires_at := None, hold_id := None,
     held_by := None\<rparr>"

definition release_expired_holds :: "int \<Rightarrow> db \<Rightarrow> db" where
  "release_expired_holds now d =
     \<lparr>seats_table =
        map (\<lambda>s. if status s = HELD \<and> before (hold_expires_at s) now then release_seat s else s)
          (seats_table d),
      bookings_table =
        map (\<lambda>b. if status_booking b = HELD_b \<and> before (hold_expires_at_booking b) now
                  then b\<lparr>status_booking := CANCELLED_b\<rparr> else b)
          (bookings_table d)\<rparr>"

section \<open>The operations of \<open>useBooking\<close>\<close>

text \<open>
  An operation runs in the closure of one render: what it reads of the hook's state is
  the snapshot \<open>c\<close> of that render, also after it has called a setter. The setters act on
  the pending state \<open>p\<close>, which the next render shows. One call reads the clock as the
  one value \<open>now\<close> (client and store).

  \<open>fetchSeats\<close>: runs the reclaimer (its result is not looked at), selects the seats of
  the current show ordered by the text \<open>seat_id\<close>, then reconciles the local hold.
\<close>

definition reconcile :: "client \<Rightarrow> int \<Rightarrow> seat list \<Rightarrow> client \<Rightarrow> client" where
  "reconcile c now data p =
     (if truthy (seatId (bookingState c)) \<and> status_local (bookingState c) = HELD_l then
        (case find (\<lambda>s. Some (id_seat s) = seatId (bookingState c)) data of
           None \<Rightarrow> p
         | Some heldSeat \<Rightarrow>
             (case (status heldSeat, hold_expires_at heldSeat) of
                (HELD, Some expiresAt) \<Rightarrow>
                  if expiresAt > now then
                    p\<lparr>selectedSeat := Some heldSeat,
                      bookingState := (bookingState p)\<lparr>holdExpiresAt := Some expiresAt\<rparr>\<rparr>
                  else p\<lparr>bookingState := idle\<rparr>
              | _ \<Rightarrow> p))
      else p)"

definition fetchSeats :: "client \<Rightarrow> client \<Rightarrow> int \<Rightarrow> bool \<Rightarrow> bool \<Rightarrow> db \<Rightarrow> client \<times> db" where
  "fetchSeats c p now rpc_fails select_fails d =
     (case currentShow c of
        None \<Rightarrow> (p, d)
      | Some show \<Rightarrow>
          let d1 = (if rpc_fails then d else release_expired_holds now d) in
          if select_fails then (p, d1)
          else
            let data = sort_key seat_id (filter (\<lambda>s. show_id s = show) (seats_table d1));
                p1 = p\<lparr>seats := data\<rparr>;
                p2 = (case selectedSeat c of
                        None \<Rightarrow> p1
                      | Some sel \<Rightarrow>
                          (case find (\<lambda>s. id_seat s = id_seat sel) data of
                             None \<Rightarrow> p1
                           | Some updated \<Rightarrow> p1\<lparr>selectedSeat := Some updated\<rparr>))
            in (reconcile c now data p2, d1))"

definition hold_seat :: "string \<Rightarrow> int \<Rightarrow> string \<Rightarrow> seat \<Rightarrow> seat" where
  "hold_seat bid expires name s =
     s\<lparr>status := HELD, hold_expires_at := Some expires, hold_id := Some bid,
       held_by := Some name\<rparr>"

definition holdSeat ::
  "client \<Rightarrow> string \<Rightarrow> int \<Rightarrow> string \<Rightarrow> (request \<Rightarrow> bool) \<Rightarrow> db \<Rightarrow> toast option \<times> client \<times> db" where
  "holdSeat c name now uuid F d =
     (case (user c, selectedSeat c, currentShow c) of
        (Some uid, Some sel, Some show) \<Rightarrow>
          if trim name = [] then (Some Error_enter_name, c, d)
          else
            let (p1, d1) = fetchSeats c c now (F Rpc_first) (F Select_first) d in
            (case find (\<lambda>s. id_seat s = id_seat sel) (seats c) of
               None \<Rightarrow> (Some Seat_Unavailable, p1, d1)
             | Some currentSeat \<Rightarrow>
                 if status currentSeat \<noteq> AVAILABLE then (Some Seat_Unavailable, p1, d1)
                 else
                   let expires = now + HOLD_DURATION_SECONDS * 1000;
                       bid = uuid
                   in
                   if F Seat_write then (Some Error_hold_failed, p1, d1)
                   else
                     let d2 = update_seats (user c)
                                (\<lambda>s. id_seat s = id_seat sel \<and> status s = AVAILABLE)
                                (hold_seat bid expires (trim name)) d1
                     in
                     (case (if F Booking_write then None
                            else insert_booking (user c)
                                   \<lparr>id_booking = bid, seat_id_booking = id_seat sel,
                                    user_id = Some uid, customer_name = trim name,
                                    status_booking = HELD_b,
                                    hold_expires_at_booking = Some expires,
                                    confirmed_at = None\<rparr> d2) of
                        None \<Rightarrow> (Some Error_hold_failed, p1, d2)
                      | Some d3 \<Rightarrow>
                          let p2 = p1\<lparr>bookingState :=
                                     \<lparr>bookingId = Some bid, seatId = Some (id_seat sel),
                                      customerName = trim name, status_local = HELD_l,
                                      holdExpiresAt = Some expires\<rparr>\<rparr>;
                              (p3, d4) = fetchSeats c p2 now (F Rpc_last) (F Select_last) d3
                          in (Some Seat_Held, p3, d4)))
      | _ \<Rightarrow> (Some Error_select_seat, c, d))"

text \<open>
  \<open>confirmPayment\<close>: the seat update is keyed on the seat id and on \<open>hold_id\<close>, the
  booking update on the booking id. The clock is read for \<open>booked_at\<close> and
  \<open>confirmed_at\<close> only.
\<close>

definition book_seat :: "string \<Rightarrow> int \<Rightarrow> seat \<Rightarrow> seat" where
  "book_seat name now s =
     s\<lparr>status := BOOKED, hold_expires_at := None, hold_id := None, held_by := None,
       booked_by := Some name, booked_at := Some now\<rparr>"

definition confirm_seat_update :: "client \<Rightarrow> int \<Rightarrow> db \<Rightarrow> db" where
  "confirm_seat_update c now d =
     update_seats (user c)
       (\<lambda>s. Some (id_seat s) = seatId (bookingState c)
            \<and> hold_id s = bookingId (bookingState c))
       (book_seat (customerName (bookingState c)) now) d"

definition confirmPayment ::
  "client \<Rightarrow> int \<Rightarrow> (request \<Rightarrow> bool) \<Rightarrow> db \<Rightarrow> toast option \<times> client \<times> db" where
  "confirmPayment c now F d =
     (if user c = None \<or> falsy (bookingId (bookingState c))
         \<or> falsy (seatId (bookingState c))
      then (Some Error_no_active_booking, c, d)
      else if F Seat_write then (Some Error_confirm_failed, c, d)
      else
        let d1 = confirm_seat_update c now d in
        if F Booking_write then (Some Error_confirm_failed, c, d1)
        else
          let d2 = update_bookings (user c)
                     (\<lambda>b. Some (id_booking b) = bookingId (bookingState c))
                     (\<lambda>b. b\<lparr>status_booking := CONFIRMED_b, confirmed_at := Some now\<rparr>) d1;
              p1 = c\<lparr>bookingState := idle\<lparr>status_local := CONFIRMED_l\<rparr>\<rparr>;
              (p2, d3) = fetchSeats c p1 now (F Rpc_last) (F Select_last) d2
          in (Some Booking_Confirmed, p2, d3))"

text \<open>Two seconds after a confirmation the \<open>setTimeout\<close> callback resets the local state.\<close>

definition confirm_timeout :: "client \<Rightarrow> client" where
  "confirm_timeout c = c\<lparr>bookingState := idle\<rparr>"

text \<open>
  \<open>releaseHold\<close>: the seat update is keyed on the seat id alone. An error of the booking
  update is logged and the operation goes on.
\<close>

definition releaseHold ::
  "client \<Rightarrow> int \<Rightarrow> (request \<Rightarrow> bool) \<Rightarrow> db \<Rightarrow> toast option \<times> client \<times> db" where
  "releaseHold c now F d =
     (if falsy (seatId (bookingState c)) then (None, c, d)
      else if F Seat_write then (Some Error_release_failed, c, d)
      else
        let d1 = update_seats (user c)
                   (\<lambda>s. Some (id_seat s) = seatId (bookingState c)) release_seat d;
            d2 = (if truthy (bookingId (bookingState c)) \<and> \<not> F Booking_write
                  then update_bookings (user c)
                         (\<lambda>b. Some (id_booking b) = bookingId (bookingState c))
                         (\<lambda>b. b\<lparr>status_booking := CANCELLED_b\<rparr>) d1
                  else d1);
            p1 = c\<lparr>bookingState := idle\<rparr>;
            (p2, d3) = fetchSeats c p1 now (F Rpc_last) (F Select_last) d2
        in (Some Hold_Released, p2, d3))"

text \<open>
  The countdown effect: every second, while the local state is HELD with a deadline, it
  computes the whole seconds left and releases the hold when none is left.
\<close>

definition timer_tick ::
  "client \<Rightarrow> int \<Rightarrow> (request \<Rightarrow> bool) \<Rightarrow> db \<Rightarrow> toast option \<times> client \<times> db" where
  "timer_tick c now F d =
     (case holdExpiresAt (bookingState c) of
        None \<Rightarrow> (None, c, d)
      | Some expires \<Rightarrow>
          if status_local (bookingState c) \<noteq> HELD_l then (None, c, d)
          else
            let remaining = max 0 ((expires - now) div 1000) in
            if remaining \<le> 0 then releaseHold c now F d else (None, c, d))"

text \<open>
  A page load: the hook starts with no seats and no selection, and with the booking
  state that the persist effect left in local storage (every state but IDLE is stored).
\<close>

definition persisted :: "BookingState \<Rightarrow> BookingState option" where
  "persisted b = (if status_local b \<noteq> IDLE then Some b else None)"

definition mount :: "string option \<Rightarrow> string option \<Rightarrow> BookingState option \<Rightarrow> client" where
  "mount u show saved =
     \<lparr>user = u, currentShow = show, seats = [], selectedSeat = None,
      bookingState = (case saved of None \<Rightarrow> idle | Some b \<Rightarrow> b)\<rparr>"

text \<open>A click on a seat of the grid selects it when it shows as AVAILABLE and no hold is on.\<close>

definition handleClick :: "client \<Rightarrow> seat \<Rightarrow> client" where
  "handleClick c s =
     (if status_local (bookingState c) = HELD_l \<or> status s \<noteq> AVAILABLE then c
      else c\<lparr>selectedSeat := Some s\<rparr>)"

section \<open>The seat grid\<close>

text \<open>
  A JavaScript number that is an integer, an infinity or NaN. \<open>to_number\<close> is the
  double nearest to an integer: the integer itself below \<open>2^53\<close>, otherwise its 53
  leading bits rounded to nearest, ties to even, and an infinity from \<open>2^1024\<close> on.
  \<open>bits m\<close> is the number of binary digits of \<open>m\<close>.
\<close>

datatype number = NaN | Finite int | PosInfinity | NegInfinity

function bits :: "int \<Rightarrow> nat" where
  "bits n = (if n \<le> 0 then 0 else Suc (bits (n div 2)))"
  by pat_completeness auto
termination
  by (relation "measure nat") auto

declare bits.simps [simp del]

definition round53 :: "int \<Rightarrow> int" where
  "round53 m =
     (let e = bits m - 53; q = m div 2 ^ e; r = m mod 2 ^ e; h = 2 ^ (e - 1)
      in (if r > h \<or> (r = h \<and> odd q) then q + 1 else q) * 2 ^ e)"

definition to_number :: "int \<Rightarrow> number" where
  "to_number n =
     (if \<bar>n\<bar> < 2 ^ 53 then Finite n
      else if round53 \<bar>n\<bar> \<ge> 2 ^ 1024 then (if n > 0 then PosInfinity else NegInfinity)
      else Finite (sgn n * round53 \<bar>n\<bar>))"

text \<open>The subtraction of two such numbers, and the test \<open>v > 0\<close>.\<close>

definition minus_number :: "number \<Rightarrow> number \<Rightarrow> number" where
  "minus_number x y =
     (case (x, y) of
        (NaN, _) \<Rightarrow> NaN
      | (_, NaN) \<Rightarrow> NaN
      | (Finite a, Finite b) \<Rightarrow> to_number (a - b)
      | (Finite a, PosInfinity) \<Rightarrow> NegInfinity
      | (Finite a, NegInfinity) \<Rightarrow> PosInfinity
      | (PosInfinity, PosInfinity) \<Rightarrow> NaN
      | (PosInfinity, _) \<Rightarrow> PosInfinity
      | (NegInfinity, NegInfinity) \<Rightarrow> NaN
      | (NegInfinity, _) \<Rightarrow> NegInfinity)"

definition positive :: "number \<Rightarrow> bool" where
  "positive x = (case x of Finite v \<Rightarrow> v > 0 | PosInfinity \<Rightarrow> True | _ \<Rightarrow> False)"

text \<open>
  \<open>parseInt\<close> with no radix: leading white space, an optional sign, then the longest
  run of digits, decimal or, after \<open>0x\<close>, hexadecimal; what follows is ignored. With no
  digit the result is NaN, otherwise the number nearest to the integer the digits write.
  (Past the twentieth decimal digit ECMAScript lets an implementation round differently.)
\<close>

definition digit_value :: "char \<Rightarrow> int option" where
  "digit_value c =
     (let n = of_char c :: int in
      if 48 \<le> n \<and> n \<le> 57 then Some (n - 48)
      else if 97 \<le> n \<and> n \<le> 102 then Some (n - 87)
      else if 65 \<le> n \<and> n \<le> 70 then Some (n - 55)
      else None)"

definition is_digit :: "int \<Rightarrow> char \<Rightarrow> bool" where
  "is_digit radix c = (case digit_value c of None \<Rightarrow> False | Some v \<Rightarrow> v < radix)"

definition digits_value :: "int \<Rightarrow> string \<Rightarrow> int option" where
  "digits_value radix s =
     (let ds = takeWhile (is_digit radix) s in
      if ds = [] then None
      else Some (foldl (\<lambda>acc c. acc * radix + the (digit_value c)) 0 ds))"

definition parse_unsigned :: "string \<Rightarrow> int option" where
  "parse_unsigned s =
     (case s of
        c0 # c1 # r \<Rightarrow>
          if c0 = CHR ''0'' \<and> (c1 = CHR ''x'' \<or> c1 = CHR ''X'') then digits_value 16 r
          else digits_value 10 s
      | _ \<Rightarrow> digits_value 10 s)"

definition signed_number :: "int \<Rightarrow> int option \<Rightarrow> number" where
  "signed_number sign m = (case m of None \<Rightarrow> NaN | Some v \<Rightarrow> to_number (sign * v))"

definition parseInt :: "string \<Rightarrow> number" where
  "parseInt s =
     (case strip_start white_space s of
        [] \<Rightarrow> NaN
      | c # r \<Rightarrow>
          if c = CHR ''-'' then signed_number (- 1) (parse_unsigned r)
          else if c = CHR ''+'' then signed_number 1 (parse_unsigned r)
          else signed_number 1 (parse_unsigned (c # r)))"

text \<open>\<open>seat_id.replace('A', '')\<close> takes out the first \<open>A\<close>.\<close>

definition seat_number :: "seat \<Rightarrow> number" where
  "seat_number s = parseInt (remove1 (CHR ''A'') (seat_id s))"

text \<open>The comparator \<open>numA - numB\<close>.\<close>

definition compare_seats :: "seat \<Rightarrow> seat \<Rightarrow> number" where
  "compare_seats a b = minus_number (seat_number a) (seat_number b)"

text \<open>
  \<open>Array.prototype.sort\<close> is stable, and takes a comparator result that is NaN for
  zero. It is modelled as the stable insertion sort: an element goes behind the ones the
  comparator puts strictly before it. (Where the comparator is not a consistent order,
  which needs a label without a number, ECMAScript leaves the order open.)
\<close>

fun insert_by :: "('a \<Rightarrow> 'a \<Rightarrow> number) \<Rightarrow> 'a \<Rightarrow> 'a list \<Rightarrow> 'a list" where
  "insert_by cmp x [] = [x]"
| "insert_by cmp x (y # ys) =
     (if positive (cmp x y) then y # insert_by cmp x ys else x # y # ys)"

definition sort_by :: "('a \<Rightarrow> 'a \<Rightarrow> number) \<Rightarrow> 'a list \<Rightarrow> 'a list" where
  "sort_by cmp xs = foldr (insert_by cmp) xs []"

definition sortedSeats :: "seat list \<Rightarrow> seat list" where
  "sortedSeats ss = sort_by compare_seats ss"

text \<open>
  The numeric order of two seats: both labels have a finite number, and the first is at
  most the second.
\<close>

definition has_number :: "seat \<Rightarrow> bool" where
  "has_number s = (case seat_number s of Finite n \<Rightarrow> True | _ \<Rightarrow> False)"

definition numeric_le :: "seat \<Rightarrow> seat \<Rightarrow> bool" where
  "numeric_le a b =
     (case (seat_number a, seat_number b) of (Finite m, Finite n) \<Rightarrow> m \<le> n | _ \<Rightarrow> False)"

section \<open>The properties of the specification\<close>

text \<open>
  The three shapes of a seat row: nothing set (AVAILABLE), the hold columns set and the
  booking columns unset (HELD), the booking columns set and the hold columns unset
  (BOOKED).
\<close>

definition hold_fields_unset :: "seat \<Rightarrow> bool" where
  "hold_fields_unset s = (hold_expires_at s = None \<and> hold_id s = None \<and> held_by s = None)"

definition hold_fields_set :: "seat \<Rightarrow> bool" where
  "hold_fields_set s = (hold_expires_at s \<noteq> None \<and> hold_id s \<noteq> None \<and> held_by s \<noteq> None)"

definition booking_fields_unset :: "seat \<Rightarrow> bool" where
  "booking_fields_unset s = (booked_by s = None \<and> booked_at s = None)"

definition booking_fields_set :: "seat \<Rightarrow> bool" where
  "booking_fields_set s = (booked_by s \<noteq> None \<and> booked_at s \<noteq> None)"

definition seat_shape :: "seat \<Rightarrow> bool" where
  "seat_shape s =
     (case status s of
        AVAILABLE \<Rightarrow> hold_fields_unset s \<and> booking_fields_unset s
      | HELD \<Rightarrow> hold_fields_set s \<and> booking_fields_unset s
      | BOOKED \<Rightarrow> booking_fields_set s \<and> hold_fields_unset s)"

text \<open>Looking a row up by its primary key.\<close>

definition seat_of :: "db \<Rightarrow> string \<Rightarrow> seat option" where
  "seat_of d k = find (\<lambda>s. id_seat s = k) (seats_table d)"

definition booking_of :: "db \<Rightarrow> string \<Rightarrow> booking option" where
  "booking_of d k = find (\<lambda>b. id_booking b = k) (bookings_table d)"







section \<open>A show with two seats and two customers\<close>

text \<open>The row \<open>seedShow\<close> inserts for a label: AVAILABLE, every nullable column NULL.\<close>

definition seeded_seat :: "string \<Rightarrow> string \<Rightarrow> string \<Rightarrow> seat" where
  "seeded_seat k label show =
     \<lparr>id_seat = k, seat_id = label, status = AVAILABLE, hold_expires_at = None,
      booked_by = None, booked_at = None, hold_id = None, held_by = None, show_id = show\<rparr>"

definition seat_A1 :: seat where
  "seat_A1 = seeded_seat ''seat-1'' ''A1'' ''show-1''"

definition store0 :: db where
  "store0 = \<lparr>seats_table = [seat_A1, seeded_seat ''seat-2'' ''A2'' ''show-1''],
     bookings_table = []\<rparr>"

definition client_of :: "toast option \<times> client \<times> db \<Rightarrow> client" where
  "client_of r = fst (snd r)"

definition store_of :: "toast option \<times> client \<times> db \<Rightarrow> db" where
  "store_of r = snd (snd r)"

text \<open>A customer opens the page on the fresh show at time 0 and clicks seat A1.\<close>

definition arrives :: "string \<Rightarrow> client" where
  "arrives u =
     (let c = mount (Some u) (Some ''show-1'') None
      in handleClick (fst (fetchSeats c c 0 False False store0)) seat_A1)"

text \<open>Alice holds A1 at 1 s under the token T1; the hold runs until 21 s.\<close>

definition alice_holds :: "toast option \<times> client \<times> db" where
  "alice_holds = holdSeat (arrives ''alice'') ''Alice'' 1000 ''T1'' no_faults store0"

text \<open>Alice pays at 5 s.\<close>

definition alice_confirms :: "toast option \<times> client \<times> db" where
  "alice_confirms = confirmPayment (client_of alice_holds) 5000 no_faults (store_of alice_holds)"

text \<open>
  Bob opened the page at time 0 as well and has not refreshed since: his page still
  shows A1 as AVAILABLE. At 10 s, after Alice has paid, he asks for a hold on A1.
\<close>

definition bob_holds_booked_seat :: "toast option \<times> client \<times> db" where
  "bob_holds_booked_seat =
     holdSeat (arrives ''bob'') ''Bob'' 10000 ''T2'' no_faults (store_of alice_confirms)"

text \<open>
  Alice does not pay: she closes the page after her hold, whose state stays in local
  storage. Bob asks for the hold at 31 s (the refresh that opens his call sweeps
  Alice's hold, which ran out at 21 s) and pays at 35 s.
\<close>

definition alice_saved :: "BookingState option" where
  "alice_saved = persisted (bookingState (client_of alice_holds))"

definition bob_holds_after_expiry :: "toast option \<times> client \<times> db" where
  "bob_holds_after_expiry =
     holdSeat (arrives ''bob'') ''Bob'' 31000 ''T2'' no_faults (store_of alice_holds)"

definition bob_confirms :: "toast option \<times> client \<times> db" where
  "bob_confirms =
     confirmPayment (client_of bob_holds_after_expiry) 35000 no_faults
       (store_of bob_holds_after_expiry)"

text \<open>Alice opens the page again at time \<open>t\<close>, on the store \<open>d\<close>: the page loads and fetches.\<close>

definition alice_returns :: "int \<Rightarrow> db \<Rightarrow> client \<times> db" where
  "alice_returns t d =
     (let c = mount (Some ''alice'') (Some ''show-1'') alice_saved
      in fetchSeats c c t False False d)"

text \<open>She is back at 60 s, after Bob has paid; a second later her countdown ticks.\<close>

definition alice_tick_after_bob_paid :: "toast option \<times> client \<times> db" where
  "alice_tick_after_bob_paid =
     (let (c, d) = alice_returns 60000 (store_of bob_confirms)
      in timer_tick c 61000 no_faults d)"

text \<open>She is back at 40 s, while Bob holds the seat, and cancels at 41 s.\<close>

definition alice_cancels_during_bobs_hold :: "toast option \<times> client \<times> db" where
  "alice_cancels_during_bobs_hold =
     (let (c, d) = alice_returns 40000 (store_of bob_holds_after_expiry)
      in releaseHold c 41000 no_faults d)"



text \<open>A show with the seats A2 and A10.\<close>

definition store_A2_A10 :: db where
  "store_A2_A10 =
     \<lparr>seats_table = [seeded_seat ''seat-2'' ''A2'' ''show-1'',
                      seeded_seat ''seat-10'' ''A10'' ''show-1''],
      bookings_table = []\<rparr>"

section \<open>Lookups after a write\<close>

lemma find_map_key:
  assumes "\<And>x. key (f x) = key x"
  shows "find (\<lambda>x. key x = k) (map f xs) = map_option f (find (\<lambda>x. key x = k) xs)"
  using assms by (induction xs) auto

lemma find_snoc:
  "find P (xs @ [y]) = (case find P xs of None \<Rightarrow> (if P y then Some y else None) | Some x \<Rightarrow> Some x)"
  by (induction xs) auto

lemma seat_of_update_seats:
  assumes "\<And>s. id_seat (f s) = id_seat s"
  shows "seat_of (update_seats uid P f d) k
         = map_option (\<lambda>s. if uid \<noteq> None \<and> P s then f s else s) (seat_of d k)"
  unfolding seat_of_def update_seats_def using assms
  by (simp add: find_map_key [where key = id_seat])

lemma booking_of_update_seats: "booking_of (update_seats uid P f d) k = booking_of d k"
  by (simp add: booking_of_def update_seats_def)



lemma seat_of_release_expired_holds:
  "seat_of (release_expired_holds now d) k
   = map_option (\<lambda>s. if status s = HELD \<and> before (hold_expires_at s) now
                       then release_seat s else s) (seat_of d k)"
  unfolding seat_of_def release_expired_holds_def
  by (simp add: find_map_key [where key = id_seat] release_seat_def)

lemma booking_of_release_expired_holds:
  "booking_of (release_expired_holds now d) k
   = map_option (\<lambda>b. if status_booking b = HELD_b \<and> before (hold_expires_at_booking b) now
                       then b\<lparr>status_booking := CANCELLED_b\<rparr> else b) (booking_of d k)"
  unfolding booking_of_def release_expired_holds_def
  by (simp add: find_map_key [where key = id_booking])

lemma snd_fetchSeats:
  "snd (fetchSeats c p now a b d)
   = (if currentShow c = None \<or> a then d else release_expired_holds now d)"
  by (simp add: fetchSeats_def Let_def split: option.splits)

lemma seat_of_insert_booking:
  "insert_booking uid b d = Some d' \<Longrightarrow> seat_of d' k = seat_of d k"
  by (auto simp: insert_booking_def seat_of_def split: if_splits)

lemma booking_of_insert_booking:
  "insert_booking uid b d = Some d' \<Longrightarrow> booking_of d' (id_booking b) = Some b"
  by (auto simp: insert_booking_def booking_of_def find_snoc split: if_splits option.splits)

lemma insert_booking_succeeds:
  "uid \<noteq> None \<Longrightarrow> user_id b = uid \<Longrightarrow> booking_of d (id_booking b) = None \<Longrightarrow>
   seat_of d (seat_id_booking b) \<noteq> None \<Longrightarrow> insert_booking uid b d \<noteq> None"
  by (auto simp: insert_booking_def booking_of_def seat_of_def)

lemma seat_of_id: "seat_of d k = Some s \<Longrightarrow> id_seat s = k"
  by (auto simp: seat_of_def find_Some_iff)


lemma holdSeat_effect:
  assumes u: "user c = Some uid" and sel: "selectedSeat c = Some sel"
    and sh: "currentShow c = Some show" and name: "trim name \<noteq> []"
    and snap: "find (\<lambda>s. id_seat s = id_seat sel) (seats c) = Some cur" "status cur = AVAILABLE"
    and st: "seat_of d (id_seat sel) = Some s" "status s = AVAILABLE"
    and fresh: "booking_of d uuid = None"
    and ok: "\<not> F Seat_write" "\<not> F Booking_write"
  shows "fst (holdSeat c name now uuid F d) = Some Seat_Held"
    and "seat_of (store_of (holdSeat c name now uuid F d)) (id_seat sel)
         = Some (hold_seat uuid (now + 20 * 1000) (trim name) s)"
    and "booking_of (store_of (holdSeat c name now uuid F d)) uuid
         = Some \<lparr>id_booking = uuid, seat_id_booking = id_seat sel, user_id = Some uid,
                  customer_name = trim name, status_booking = HELD_b,
                  hold_expires_at_booking = Some (now + 20 * 1000), confirmed_at = None\<rparr>"
proof -
  let ?e = "now + 20 * 1000"
  let ?b = "\<lparr>id_booking = uuid, seat_id_booking = id_seat sel, user_id = Some uid,
             customer_name = trim name, status_booking = HELD_b,
             hold_expires_at_booking = Some ?e, confirmed_at = None\<rparr>"
  obtain p1 d1 where f1: "fetchSeats c c now (F Rpc_first) (F Select_first) d = (p1, d1)"
    by (cases "fetchSeats c c now (F Rpc_first) (F Select_first) d")
  have d1: "d1 = (if currentShow c = None \<or> F Rpc_first then d else release_expired_holds now d)"
    using snd_fetchSeats [of c c now "F Rpc_first" "F Select_first" d] f1 by simp
  have s1: "seat_of d1 (id_seat sel) = Some s"
    using st by (simp add: d1 seat_of_release_expired_holds)
  have b1: "booking_of d1 uuid = None"
    using fresh by (simp add: d1 booking_of_release_expired_holds)
  let ?d2 = "update_seats (user c) (\<lambda>s. id_seat s = id_seat sel \<and> status s = AVAILABLE)
               (hold_seat uuid ?e (trim name)) d1"
  have s2: "seat_of ?d2 (id_seat sel) = Some (hold_seat uuid ?e (trim name) s)"
  proof -
    have "seat_of ?d2 (id_seat sel)
          = map_option (\<lambda>s. if user c \<noteq> None \<and> id_seat s = id_seat sel \<and> status s = AVAILABLE
                              then hold_seat uuid ?e (trim name) s else s)
              (seat_of d1 (id_seat sel))"
      by (rule seat_of_update_seats) (simp add: hold_seat_def)
    then show ?thesis using s1 st(2) u seat_of_id [OF s1] by simp
  qed
  have b2: "booking_of ?d2 uuid = None"
    using b1 by (simp add: booking_of_update_seats)
  have "insert_booking (user c) ?b ?d2 \<noteq> None"
    using u b2 s2 by (intro insert_booking_succeeds) simp_all
  then obtain d3 where i3: "insert_booking (user c) ?b ?d2 = Some d3" by blast
  have s3: "seat_of d3 (id_seat sel) = Some (hold_seat uuid ?e (trim name) s)"
    using seat_of_insert_booking [OF i3] s2 by simp
  have b3: "booking_of d3 uuid = Some ?b"
    using booking_of_insert_booking [OF i3] by simp
  let ?p2 = "p1\<lparr>bookingState := \<lparr>bookingId = Some uuid, seatId = Some (id_seat sel),
               customerName = trim name, status_local = HELD_l, holdExpiresAt = Some ?e\<rparr>\<rparr>"
  obtain p3 d4 where f4: "fetchSeats c ?p2 now (F Rpc_last) (F Select_last) d3 = (p3, d4)"
    by (cases "fetchSeats c ?p2 now (F Rpc_last) (F Select_last) d3")
  have d4: "d4 = (if currentShow c = None \<or> F Rpc_last then d3 else release_expired_holds now d3)"
    using snd_fetchSeats [of c ?p2 now "F Rpc_last" "F Select_last" d3] f4 by simp
  have s4: "seat_of d4 (id_seat sel) = Some (hold_seat uuid ?e (trim name) s)"
    using s3 by (simp add: d4 seat_of_release_expired_holds hold_seat_def before_def)
  have b4: "booking_of d4 uuid = Some ?b"
    using b3 by (simp add: d4 booking_of_release_expired_holds before_def)
  have r: "holdSeat c name now uuid F d = (Some Seat_Held, p3, d4)"
    using u sel sh name snap ok f1 i3 f4
    by (simp add: holdSeat_def HOLD_DURATION_SECONDS_def)
  show "fst (holdSeat c name now uuid F d) = Some Seat_Held" by (simp add: r)
  show "seat_of (store_of (holdSeat c name now uuid F d)) (id_seat sel)
         = Some (hold_seat uuid ?e (trim name) s)" by (simp add: r store_of_def s4)
  show "booking_of (store_of (holdSeat c name now uuid F d)) uuid = Some ?b"
    by (simp add: r store_of_def b4)
qed

section \<open>What the operations do to the two rows\<close>

lemma booking_of_release_expired_holds_None:
  "booking_of (release_expired_holds now d) k = None \<longleftrightarrow> booking_of d k = None"
  by (simp add: booking_of_release_expired_holds)

lemma insert_booking_fresh:
  "insert_booking uid b d \<noteq> None \<Longrightarrow> booking_of d (id_booking b) = None"
  by (auto simp: insert_booking_def booking_of_def split: if_splits)

lemma holdSeat_Seat_Held:
  assumes r: "fst (holdSeat c name now uuid F d) = Some Seat_Held"
  obtains uid sel sh cur where "user c = Some uid" "selectedSeat c = Some sel"
    "currentShow c = Some sh" "trim name \<noteq> []"
    "find (\<lambda>s. id_seat s = id_seat sel) (seats c) = Some cur" "status cur = AVAILABLE"
    "booking_of d uuid = None" "\<not> F Seat_write" "\<not> F Booking_write"
proof -
  obtain uid sel sh where h: "user c = Some uid" "selectedSeat c = Some sel"
    "currentShow c = Some sh"
    using r by (auto simp: holdSeat_def split: option.splits)
  have n: "trim name \<noteq> []"
    using r h by (auto simp: holdSeat_def)
  obtain p1 d1 where f1: "fetchSeats c c now (F Rpc_first) (F Select_first) d = (p1, d1)"
    by (cases "fetchSeats c c now (F Rpc_first) (F Select_first) d")
  have d1: "d1 = (if currentShow c = None \<or> F Rpc_first then d else release_expired_holds now d)"
    using snd_fetchSeats [of c c now "F Rpc_first" "F Select_first" d] f1 by simp
  obtain cur where cur: "find (\<lambda>s. id_seat s = id_seat sel) (seats c) = Some cur"
    using r h n f1 by (auto simp: holdSeat_def split: option.splits)
  have av: "status cur = AVAILABLE"
    using r h n f1 cur by (auto simp: holdSeat_def split: if_splits)
  have sw: "\<not> F Seat_write"
    using r h n f1 cur av by (auto simp: holdSeat_def Let_def split: if_splits)
  let ?d2 = "update_seats (user c) (\<lambda>s. id_seat s = id_seat sel \<and> status s = AVAILABLE)
               (hold_seat uuid (now + HOLD_DURATION_SECONDS * 1000) (trim name)) d1"
  let ?b = "\<lparr>id_booking = uuid, seat_id_booking = id_seat sel, user_id = Some uid,
             customer_name = trim name, status_booking = HELD_b,
             hold_expires_at_booking = Some (now + HOLD_DURATION_SECONDS * 1000),
             confirmed_at = None\<rparr>"
  have ins: "\<not> F Booking_write \<and> insert_booking (user c) ?b ?d2 \<noteq> None"
    using r h n f1 cur av sw
    by (auto simp: holdSeat_def Let_def split: if_splits option.splits)
  then have "booking_of ?d2 uuid = None"
    using insert_booking_fresh [of "user c" ?b ?d2] by simp
  then have "booking_of d uuid = None"
    by (simp add: booking_of_update_seats d1 booking_of_release_expired_holds_None
        split: if_splits)
  then show ?thesis using that h n cur av sw ins by blast
qed



















section \<open>The order of the seat grid\<close>

lemma bits_lower: "m > 0 \<Longrightarrow> 2 ^ (bits m - 1) \<le> m"
proof (induction m rule: bits.induct)
  case (1 n)
  show ?case
  proof (cases "n div 2 \<le> 0")
    case True
    then show ?thesis using "1.prems"
      by (simp add: bits.simps [of n] bits.simps [of "n div 2"] bits.simps [of 0])
  next
    case False
    then have "2 ^ (bits (n div 2) - 1) \<le> n div 2" using 1 by simp
    moreover have "bits (n div 2) > 0" using False by (simp add: bits.simps [of "n div 2"])
    ultimately have "2 ^ bits (n div 2) \<le> 2 * (n div 2)"
      by (cases "bits (n div 2)") auto
    then show ?thesis using "1.prems" by (simp add: bits.simps [of n])
  qed
qed

lemma round53_pos: "m > 0 \<Longrightarrow> round53 m > 0"
proof -
  assume m: "m > 0"
  have "(2::int) ^ (bits m - 53) \<le> 2 ^ (bits m - 1)" by (rule power_increasing) simp_all
  from this bits_lower [OF m] have "2 ^ (bits m - 53) \<le> m" by (rule order_trans)
  then have "m div 2 ^ (bits m - 53) > 0"
    by (simp add: pos_imp_zdiv_pos_iff)
  then show ?thesis by (simp add: round53_def Let_def)
qed

lemma positive_to_number: "positive (to_number n) \<longleftrightarrow> n > 0"
proof (cases "\<bar>n\<bar> < 2 ^ 53")
  case True
  then show ?thesis by (simp add: to_number_def positive_def)
next
  case False
  then have "\<bar>n\<bar> > 0" by simp
  from round53_pos [OF this] False show ?thesis
    by (auto simp: to_number_def positive_def sgn_if zero_less_mult_iff)
qed

lemma parseInt_rounds_like_a_double:
  "parseInt ''9007199254740993'' = Finite 9007199254740992
   \<and> parseInt ''  -12abc'' = Finite (- 12) \<and> parseInt ''0x1F'' = Finite 31
   \<and> parseInt ''abc'' = NaN"
  by code_simp

lemma mset_insert_by: "mset (insert_by cmp x ys) = add_mset x (mset ys)"
  by (induction ys) auto

lemma mset_sort_by: "mset (sort_by cmp xs) = mset xs"
  by (induction xs) (auto simp: sort_by_def mset_insert_by)

lemma set_insert_by: "set (insert_by cmp x ys) = insert x (set ys)"
  using mset_insert_by [of cmp x ys, THEN arg_cong, of set_mset] by simp

lemma has_numberD: "has_number s \<Longrightarrow> \<exists>n. seat_number s = Finite n"
  by (auto simp: has_number_def split: number.splits)

lemma positive_compare_seats:
  "seat_number a = Finite m \<Longrightarrow> seat_number b = Finite n \<Longrightarrow>
   positive (compare_seats a b) \<longleftrightarrow> m > n"
  by (simp add: compare_seats_def minus_number_def positive_to_number)

lemma numeric_le_finite:
  "seat_number a = Finite m \<Longrightarrow> seat_number b = Finite n \<Longrightarrow> numeric_le a b \<longleftrightarrow> m \<le> n"
  by (simp add: numeric_le_def)

lemma sorted_insert_by:
  assumes "has_number x" and "list_all has_number ys" and "sorted_wrt numeric_le ys"
  shows "sorted_wrt numeric_le (insert_by compare_seats x ys)"
  using assms
proof (induction ys)
  case Nil
  then show ?case by simp
next
  case (Cons y ys)
  from Cons.prems have "has_number x" and "has_number y" by simp_all
  then obtain m n where mn: "seat_number x = Finite m" "seat_number y = Finite n"
    by (blast dest: has_numberD)
  show ?case
  proof (cases "m > n")
    case True
    then have "numeric_le y x" using mn by (simp add: numeric_le_finite)
    then show ?thesis
      using Cons mn True by (auto simp: positive_compare_seats set_insert_by)
  next
    case False
    then have xy: "numeric_le x y" using mn by (simp add: numeric_le_finite)
    have "numeric_le x z" if "z \<in> set ys" for z
    proof -
      from that Cons.prems have "has_number z" by (simp add: list_all_iff)
      then obtain k where k: "seat_number z = Finite k"
        by (blast dest: has_numberD)
      from that Cons.prems have "numeric_le y z" by simp
      then show ?thesis using xy mn k by (simp add: numeric_le_finite)
    qed
    then show ?thesis
      using Cons.prems mn False xy by (auto simp: positive_compare_seats)
  qed
qed

lemma sorted_sort_by:
  assumes "list_all has_number ss"
  shows "sorted_wrt numeric_le (sort_by compare_seats ss)"
  using assms
proof (induction ss)
  case Nil
  then show ?case by (simp add: sort_by_def)
next
  case (Cons s ss)
  have "list_all has_number (sort_by compare_seats ss)"
    using Cons.prems mset_sort_by [of compare_seats ss, THEN arg_cong, of set_mset]
    by (simp add: list_all_iff)
  moreover have "sort_by compare_seats (s # ss) = insert_by compare_seats s (sort_by compare_seats ss)"
    by (simp add: sort_by_def)
  ultimately show ?case using Cons by (simp add: sorted_insert_by)
qed

lemma seats_fetchSeats:
  "currentShow c = Some sh \<Longrightarrow>
   seats (fst (fetchSeats c p now rf False d))
   = sort_key seat_id (filter (\<lambda>s. show_id s = sh)
       (seats_table (if rf then d else release_expired_holds now d)))"
  by (simp add: fetchSeats_def Let_def reconcile_def split: option.splits seat_status.splits prod.splits)

lemma labels_release_expired_holds:
  "map seat_id (filter (\<lambda>s. show_id s = sh) (seats_table (release_expired_holds now d)))
   = map seat_id (filter (\<lambda>s. show_id s = sh) (seats_table d))"
  by (simp add: release_expired_holds_def filter_map comp_def release_seat_def if_distrib
      cong: if_cong)

section \<open>The claims\<close>

text \<open>
  C1. A hold on a seat that is not AVAILABLE returns SeatUnavailable and has no side
  effect: no seat row changes and no booking transaction is created.

  The code at the failing input: Bob's page (loaded before Alice booked A1, not
  refreshed since) asks for a hold on A1, which the store has as BOOKED. The conditional
  seat update matches no row and changes none, which is no error; the call goes on,
  inserts the transaction T2 in HELD status, sets the local state to HELD and shows
  "Seat Held".
\<close>

theorem hold_on_booked_seat_reports_held:
  "map_option status (seat_of (store_of alice_confirms) ''seat-1'') = Some BOOKED
   \<and> booking_of (store_of alice_confirms) ''T2'' = None
   \<and> fst bob_holds_booked_seat = Some Seat_Held
   \<and> seats_table (store_of bob_holds_booked_seat) = seats_table (store_of alice_confirms)
   \<and> map_option status_booking (booking_of (store_of bob_holds_booked_seat) ''T2'') = Some HELD_b
   \<and> status_local (bookingState (client_of bob_holds_booked_seat)) = HELD_l"
  by code_simp

text \<open>
  C2. After every sequence of operations every seat has one of the three shapes; no
  operation leaves a seat AVAILABLE with \<open>booked_by\<close> or \<open>booked_at\<close> set.

  The code at the failing input: Alice's hold ran out while her page was closed, Bob
  held and paid for the seat, Alice opens her page again. Her stored hold state is kept,
  her countdown is at zero and releases: the seat update of \<open>releaseHold\<close>, keyed on the
  seat id alone, makes Bob's BOOKED seat AVAILABLE and leaves \<open>booked_by\<close> in place.
\<close>

theorem release_leaves_booked_by_on_available_seat:
  "map_option seat_shape (seat_of (store_of bob_confirms) ''seat-1'') = Some True
   \<and> fst alice_tick_after_bob_paid = Some Hold_Released
   \<and> map_option status (seat_of (store_of alice_tick_after_bob_paid) ''seat-1'') = Some AVAILABLE
   \<and> map_option booked_by (seat_of (store_of alice_tick_after_bob_paid) ''seat-1'')
       = Some (Some ''Bob'')
   \<and> map_option seat_shape (seat_of (store_of alice_tick_after_bob_paid) ''seat-1'') = Some False"
  by code_simp







text \<open>
  C5. A release succeeds only if the transaction of the token is HELD; a release of a
  terminal transaction returns HoldNotFound and changes nothing.

  The code at the failing input: Alice's hold was swept (T1 is CANCELLED) and Bob now
  holds the seat under T2. Alice, back on her page, cancels: \<open>releaseHold\<close> neither
  looks at the transaction nor keys the seat update on the token; it shows "Hold
  Released" and makes the seat AVAILABLE, while Bob's transaction T2 stays HELD.
\<close>

theorem release_of_swept_hold_frees_other_hold:
  "bookingId (bookingState (fst (alice_returns 40000 (store_of bob_holds_after_expiry))))
     = Some ''T1''
   \<and> map_option status_booking
        (booking_of (snd (alice_returns 40000 (store_of bob_holds_after_expiry))) ''T1'')
       = Some CANCELLED_b
   \<and> map_option hold_id
        (seat_of (snd (alice_returns 40000 (store_of bob_holds_after_expiry))) ''seat-1'')
       = Some (Some ''T2'')
   \<and> fst alice_cancels_during_bobs_hold = Some Hold_Released
   \<and> map_option status (seat_of (store_of alice_cancels_during_bobs_hold) ''seat-1'')
       = Some AVAILABLE
   \<and> map_option hold_id (seat_of (store_of alice_cancels_during_bobs_hold) ''seat-1'')
       = Some None
   \<and> map_option status_booking (booking_of (store_of alice_cancels_during_bobs_hold) ''T2'')
       = Some HELD_b"
  by code_simp

text \<open>
  C6. The lazy check and the reclaimer use the same comparison: a hold is expired
  exactly when \<open>now >= holdExpiresAt\<close>.

  The code at the failing input, the instant of the deadline (21 s): the reclaimer,
  which compares \<open>hold_expires_at < now()\<close>, leaves the seat HELD; the lazy check of
  \<open>fetchSeats\<close>, which keeps a hold only when \<open>expiresAt > now\<close>, takes it for expired
  and resets the local state.
\<close>

theorem reclaimer_and_lazy_check_differ_at_deadline:
  "map_option status (seat_of (store_of alice_holds) ''seat-1'') = Some HELD
   \<and> map_option hold_expires_at (seat_of (store_of alice_holds) ''seat-1'') = Some (Some 21000)
   \<and> release_expired_holds 21000 (store_of alice_holds) = store_of alice_holds
   \<and> snd (alice_returns 21000 (store_of alice_holds)) = store_of alice_holds
   \<and> map_option status_local alice_saved = Some HELD_l
   \<and> bookingState (fst (alice_returns 21000 (store_of alice_holds))) = idle"
  by code_simp

text \<open>
  C7. A successful hold on an AVAILABLE seat: the seat becomes HELD with the fresh token
  and the deadline \<open>now + HOLD_DURATION\<close> (20 seconds), and a booking transaction is
  created in HELD status with the same token and the same deadline.

  A hold is successful when \<open>holdSeat\<close> ends with "Seat Held". The token is fresh: no
  booking carried it before the call.
\<close>

theorem hold_success:
  assumes "fst (holdSeat c name now uuid F d) = Some Seat_Held"
    and "selectedSeat c = Some sel"
    and "seat_of d (id_seat sel) = Some s" and "status s = AVAILABLE"
  shows "seat_of (store_of (holdSeat c name now uuid F d)) (id_seat sel)
        = Some (s\<lparr>status := HELD,
                    hold_expires_at := Some (now + HOLD_DURATION_SECONDS * 1000),
                    hold_id := Some uuid, held_by := Some (trim name)\<rparr>)
    \<and> booking_of d uuid = None
    \<and> booking_of (store_of (holdSeat c name now uuid F d)) uuid
        = Some \<lparr>id_booking = uuid, seat_id_booking = id_seat sel, user_id = user c,
                 customer_name = trim name, status_booking = HELD_b,
                 hold_expires_at_booking = Some (now + HOLD_DURATION_SECONDS * 1000),
                 confirmed_at = None\<rparr>"
proof -
  from assms(1) obtain uid sel' sh cur where h: "user c = Some uid" "selectedSeat c = Some sel'"
    "currentShow c = Some sh" "trim name \<noteq> []"
    "find (\<lambda>s. id_seat s = id_seat sel') (seats c) = Some cur" "status cur = AVAILABLE"
    "booking_of d uuid = None" "\<not> F Seat_write" "\<not> F Booking_write"
    by (rule holdSeat_Seat_Held)
  from h(2) assms(2) have e: "sel' = sel" by simp
  show ?thesis
    using holdSeat_effect(2,3) [OF h(1) assms(2) h(3,4) h(5,6) [unfolded e] assms(3,4) h(7-9), of now]
      h(1,7)
    by (simp add: hold_seat_def HOLD_DURATION_SECONDS_def)
qed

theorem hold_success_witness:
  "fst alice_holds = Some Seat_Held
   \<and> selectedSeat (arrives ''alice'') = Some seat_A1
   \<and> seat_of store0 ''seat-1'' = Some seat_A1
   \<and> status seat_A1 = AVAILABLE
   \<and> seat_of (store_of alice_holds) ''seat-1''
       = Some (seat_A1\<lparr>status := HELD, hold_expires_at := Some 21000, hold_id := Some ''T1'',
                 held_by := Some ''Alice''\<rparr>)
   \<and> booking_of (store_of alice_holds) ''T1''
       = Some \<lparr>id_booking = ''T1'', seat_id_booking = ''seat-1'', user_id = Some ''alice'',
                customer_name = ''Alice'', status_booking = HELD_b,
                hold_expires_at_booking = Some 21000, confirmed_at = None\<rparr>"
proof -
  have h1: "fst (holdSeat (arrives ''alice'') ''Alice'' 1000 ''T1'' no_faults store0)
            = Some Seat_Held"
    by code_simp
  have h2: "selectedSeat (arrives ''alice'') = Some seat_A1" by code_simp
  have i: "id_seat seat_A1 = ''seat-1''" by code_simp
  have h3: "seat_of store0 (id_seat seat_A1) = Some seat_A1" by code_simp
  have h4: "status seat_A1 = AVAILABLE" by code_simp
  have t: "trim ''Alice'' = ''Alice''" by code_simp
  have u: "user (arrives ''alice'') = Some ''alice''" by code_simp
  show ?thesis
    using hold_success [OF h1 h2 h3 h4] h1 h2 h3 h4
    by (simp add: alice_holds_def t i u HOLD_DURATION_SECONDS_def)
qed

text \<open>
  C8. On session resumption the client reconciles with the store: when the seat is no
  longer HELD under the expected token (expired, reclaimed or BOOKED) the local hold
  state is dropped; otherwise the countdown resumes from the store's deadline.

  The code at the failing inputs: Alice's stored state is HELD under T1. The
  reconciliation of \<open>fetchSeats\<close> acts only when the seat row is HELD, and never looks at
  the token. With the seat reclaimed (AVAILABLE) or BOOKED by Bob, her hold state stays
  as stored; with the seat HELD by Bob under T2, her state stays HELD under T1.
\<close>

theorem resume_keeps_hold_state_of_lost_hold:
  "map_option status_local alice_saved = Some HELD_l
   \<and> map_option bookingId alice_saved = Some (Some ''T1'')
   \<and> map_option status (seat_of (snd (alice_returns 60000 (store_of alice_holds))) ''seat-1'')
       = Some AVAILABLE
   \<and> Some (bookingState (fst (alice_returns 60000 (store_of alice_holds)))) = alice_saved
   \<and> map_option status (seat_of (snd (alice_returns 60000 (store_of bob_confirms))) ''seat-1'')
       = Some BOOKED
   \<and> Some (bookingState (fst (alice_returns 60000 (store_of bob_confirms)))) = alice_saved
   \<and> map_option hold_id
        (seat_of (snd (alice_returns 40000 (store_of bob_holds_after_expiry))) ''seat-1'')
       = Some (Some ''T2'')
   \<and> status_local (bookingState (fst (alice_returns 40000 (store_of bob_holds_after_expiry))))
       = HELD_l
   \<and> bookingId (bookingState (fst (alice_returns 40000 (store_of bob_holds_after_expiry))))
       = Some ''T1''"
  by code_simp

text \<open>
  C9. The seat listing returns the seats in the natural numeric order of their labels
  (A2 before A10), not in string order.

  The claim fails for the listing of the store: \<open>fetchSeats\<close> orders by the text
  \<open>seat_id\<close>, and A10 comes before A2.
\<close>

theorem fetchSeats_lists_A10_before_A2:
  "map seat_id (seats (fst (fetchSeats (mount (Some ''alice'') (Some ''show-1'') None)
       (mount (Some ''alice'') (Some ''show-1'') None) 0 False False store_A2_A10)))
   = [''A10'', ''A2'']"
  by code_simp

text \<open>
  C9, amended. \<open>fetchSeats\<close> lists the seats of the show, all of them and no others, in
  the text order of their labels; the seat grid sorts what it is given by the number
  that follows the first \<open>A\<close> of the label (as \<open>parseInt\<close> reads it, a double), so the
  grid shows the same seats in numeric order (A2 before A10) whenever every label has
  such a number.
\<close>

theorem grid_sorts_fetched_seats_by_number:
  "(currentShow c = Some sh \<longrightarrow>
      seats (fst (fetchSeats c p now rf False d))
        = sort_key seat_id (filter (\<lambda>s. show_id s = sh)
            (seats_table (snd (fetchSeats c p now rf False d))))
      \<and> sorted (map seat_id (seats (fst (fetchSeats c p now rf False d))))
      \<and> mset (map seat_id (seats (fst (fetchSeats c p now rf False d))))
          = mset (map seat_id (filter (\<lambda>s. show_id s = sh) (seats_table d))))
   \<and> (list_all has_number ss \<longrightarrow>
      sorted_wrt numeric_le (sortedSeats ss) \<and> mset (sortedSeats ss) = mset ss)"
proof (intro conjI impI)
  assume sh: "currentShow c = Some sh"
  let ?d = "if rf then d else release_expired_holds now d"
  have e: "seats (fst (fetchSeats c p now rf False d))
           = sort_key seat_id (filter (\<lambda>s. show_id s = sh) (seats_table ?d))"
    using sh by (rule seats_fetchSeats)
  show "seats (fst (fetchSeats c p now rf False d))
        = sort_key seat_id (filter (\<lambda>s. show_id s = sh)
            (seats_table (snd (fetchSeats c p now rf False d))))"
    using sh by (simp add: e snd_fetchSeats)
  show "sorted (map seat_id (seats (fst (fetchSeats c p now rf False d))))"
    by (simp add: e)
  have l: "map seat_id (filter (\<lambda>s. show_id s = sh) (seats_table ?d))
           = map seat_id (filter (\<lambda>s. show_id s = sh) (seats_table d))"
    by (cases rf) (simp_all add: labels_release_expired_holds)
  have "mset (map seat_id (seats (fst (fetchSeats c p now rf False d))))
        = mset (map seat_id (filter (\<lambda>s. show_id s = sh) (seats_table ?d)))"
    by (simp add: e)
  then show "mset (map seat_id (seats (fst (fetchSeats c p now rf False d))))
          = mset (map seat_id (filter (\<lambda>s. show_id s = sh) (seats_table d)))"
    by (simp only: l)
next
  assume "list_all has_number ss"
  then show "sorted_wrt numeric_le (sortedSeats ss)"
    by (simp add: sortedSeats_def sorted_sort_by)
next
  show "mset (sortedSeats ss) = mset ss"
    by (simp add: sortedSeats_def mset_sort_by)
qed

theorem grid_sorts_fetched_seats_by_number_witness:
  "currentShow (mount (Some ''alice'') (Some ''show-1'') None) = Some ''show-1''
   \<and> map seat_id (seats (fst (fetchSeats (mount (Some ''alice'') (Some ''show-1'') None)
       (mount (Some ''alice'') (Some ''show-1'') None) 0 False False store_A2_A10)))
       = [''A10'', ''A2'']
   \<and> sorted (map seat_id (seats (fst (fetchSeats (mount (Some ''alice'') (Some ''show-1'') None)
       (mount (Some ''alice'') (Some ''show-1'') None) 0 False False store_A2_A10))))
   \<and> mset (map seat_id (seats (fst (fetchSeats (mount (Some ''alice'') (Some ''show-1'') None)
       (mount (Some ''alice'') (Some ''show-1'') None) 0 False False store_A2_A10))))
       = mset [''A2'', ''A10'']
   \<and> list_all has_number (rev (seats_table store_A2_A10))
   \<and> map seat_number (seats_table store_A2_A10) = [Finite 2, Finite 10]
   \<and> sorted_wrt numeric_le (sortedSeats (rev (seats_table store_A2_A10)))
   \<and> mset (sortedSeats (rev (seats_table store_A2_A10))) = mset (rev (seats_table store_A2_A10))
   \<and> map seat_id (sortedSeats (rev (seats_table store_A2_A10))) = [''A2'', ''A10'']"
proof -
  let ?m = "mount (Some ''alice'') (Some ''show-1'') None"
  have h1: "currentShow ?m = Some ''show-1''" by code_simp
  have h2: "map seat_number (seats_table store_A2_A10) = [Finite 2, Finite 10]" by code_simp
  have h3: "list_all has_number (rev (seats_table store_A2_A10))" by code_simp
  have h4: "map seat_id (sortedSeats (rev (seats_table store_A2_A10))) = [''A2'', ''A10'']"
    by code_simp
  have h5: "map seat_id (seats (fst (fetchSeats ?m ?m 0 False False store_A2_A10)))
            = [''A10'', ''A2'']"
    by code_simp
  have h6: "map seat_id (filter (\<lambda>s. show_id s = ''show-1'') (seats_table store_A2_A10))
            = [''A2'', ''A10'']"
    by code_simp
  note t = grid_sorts_fetched_seats_by_number
    [where c = ?m and sh = "''show-1''" and p = ?m and now = 0 and rf = False
       and d = store_A2_A10 and ss = "rev (seats_table store_A2_A10)"]
  from t h1 have a: "sorted (map seat_id (seats (fst (fetchSeats ?m ?m 0 False False store_A2_A10))))"
    and b: "mset (map seat_id (seats (fst (fetchSeats ?m ?m 0 False False store_A2_A10))))
            = mset (map seat_id (filter (\<lambda>s. show_id s = ''show-1'') (seats_table store_A2_A10)))"
    by blast+
  from t h3 have c: "sorted_wrt numeric_le (sortedSeats (rev (seats_table store_A2_A10)))"
    and d: "mset (sortedSeats (rev (seats_table store_A2_A10))) = mset (rev (seats_table store_A2_A10))"
    by blast+
  show ?thesis using h1 h2 h3 h4 h5 a b [unfolded h6] c d by blast
qed



end
